theory Spec2Isabelle
  imports Main
begin

section \<open>JavaScript values and the string built-ins the binder calls\<close>

text \<open>
  A JavaScript string is modelled by the bytes of its UTF-8 encoding (well-formed strings
  only), a Number by an integer (the integral Numbers whose decimal rendering has no
  exponent), an array by the list of its elements, a function by the text its
  \<^verbatim>\<open>toString\<close> returns, and a plain object (one whose prototype is the unmodified
  \<^verbatim>\<open>Object.prototype\<close>) by its own enumerable properties in enumeration order.
\<close>

datatype js_value =
    Undefined
  | Null
  | Bool bool
  | Num int
  | Str string
  | Arr "js_value list"
  | Obj "(string \<times> js_value) list"
  | Fun string

type_synonym js_object = "(string \<times> js_value) list"

fun js_typeof :: "js_value \<Rightarrow> string" where
  "js_typeof Undefined = ''undefined''"
| "js_typeof Null = ''object''"
| "js_typeof (Bool b) = ''boolean''"
| "js_typeof (Num n) = ''number''"
| "js_typeof (Str s) = ''string''"
| "js_typeof (Arr xs) = ''object''"
| "js_typeof (Obj kvs) = ''object''"
| "js_typeof (Fun body) = ''function''"

fun decimal_nat :: "nat \<Rightarrow> string" where
  "decimal_nat n =
     (if n < 10 then [''0123456789'' ! n]
      else decimal_nat (n div 10) @ [''0123456789'' ! (n mod 10)])"

definition decimal :: "int \<Rightarrow> string" where
  "decimal i = (if i < 0 then CHR ''-'' # decimal_nat (nat (- i)) else decimal_nat (nat i))"

fun join :: "string \<Rightarrow> string list \<Rightarrow> string" where
  "join sep [] = []"
| "join sep [x] = x"
| "join sep (x # y # ys) = x @ sep @ join sep (y # ys)"

text \<open>
  The abstract operation ToString, which \<^verbatim>\<open>encodeURIComponent(value)\<close> applies first.
  An object is rendered by the \<^verbatim>\<open>toString\<close> it inherits from \<^verbatim>\<open>Object.prototype\<close>:
  objects whose own properties \<^verbatim>\<open>toString\<close> or \<^verbatim>\<open>valueOf\<close> replace it are not
  distinguished here.
\<close>

fun ToString :: "js_value \<Rightarrow> string" where
  "ToString Undefined = ''undefined''"
| "ToString Null = ''null''"
| "ToString (Bool b) = (if b then ''true'' else ''false'')"
| "ToString (Num n) = decimal n"
| "ToString (Str s) = s"
| "ToString (Arr xs) =
     join '','' (map (\<lambda>x. if x = Undefined \<or> x = Null then [] else ToString x) xs)"
| "ToString (Obj kvs) = ''[object Object]''"
| "ToString (Fun body) = body"

definition unreserved :: "char \<Rightarrow> bool" where
  "unreserved c \<longleftrightarrow>
     c \<in> set ''ABCDEFGHIJKLMNOPQRSTUVWXYZabcdefghijklmnopqrstuvwxyz0123456789-_.!~*()''
     \<or> c = CHR 0x27"

definition percent :: "char \<Rightarrow> string" where
  "percent c =
     [CHR ''%'', ''0123456789ABCDEF'' ! (of_char c div 16),
      ''0123456789ABCDEF'' ! (of_char c mod 16)]"

text \<open>
  \<^verbatim>\<open>encodeURIComponent\<close> on a string: every byte of the UTF-8 encoding is escaped but the
  unreserved ASCII characters.
\<close>

definition encodeURIComponent :: "string \<Rightarrow> string" where
  "encodeURIComponent s = concat (map (\<lambda>c. if unreserved c then [c] else percent c) s)"

text \<open>
  The white space and line terminators \<^verbatim>\<open>String.prototype.trim\<close> removes, as UTF-8:
  TAB, LF, VT, FF, CR, SPACE, U+00A0, U+1680, U+2000 to U+200A, U+2028, U+2029, U+202F,
  U+205F, U+3000 and U+FEFF.
\<close>

definition js_whitespace :: "string list" where
  "js_whitespace =
     [[CHR 0x09], [CHR 0x0A], [CHR 0x0B], [CHR 0x0C], [CHR 0x0D], [CHR 0x20],
      [CHR 0xC2, CHR 0xA0], [CHR 0xE1, CHR 0x9A, CHR 0x80],
      [CHR 0xE2, CHR 0x80, CHR 0x80], [CHR 0xE2, CHR 0x80, CHR 0x81],
      [CHR 0xE2, CHR 0x80, CHR 0x82], [CHR 0xE2, CHR 0x80, CHR 0x83],
      [CHR 0xE2, CHR 0x80, CHR 0x84], [CHR 0xE2, CHR 0x80, CHR 0x85],
      [CHR 0xE2, CHR 0x80, CHR 0x86], [CHR 0xE2, CHR 0x80, CHR 0x87],
      [CHR 0xE2, CHR 0x80, CHR 0x88], [CHR 0xE2, CHR 0x80, CHR 0x89],
      [CHR 0xE2, CHR 0x80, CHR 0x8A], [CHR 0xE2, CHR 0x80, CHR 0xA8],
      [CHR 0xE2, CHR 0x80, CHR 0xA9], [CHR 0xE2, CHR 0x80, CHR 0xAF],
      [CHR 0xE2, CHR 0x81, CHR 0x9F], [CHR 0xE3, CHR 0x80, CHR 0x80],
      [CHR 0xEF, CHR 0xBB, CHR 0xBF]]"

text \<open>The length of the entry of \<open>ws\<close> the string starts with, 0 when it starts with none.\<close>

definition ws_len :: "string list \<Rightarrow> string \<Rightarrow> nat" where
  "ws_len ws s = (case find (\<lambda>w. w \<noteq> [] \<and> take (length w) s = w) ws of
                    None \<Rightarrow> 0 | Some w \<Rightarrow> length w)"

function strip :: "string list \<Rightarrow> string \<Rightarrow> string" where
  "strip ws s = (if ws_len ws s = 0 \<or> s = [] then s else strip ws (drop (ws_len ws s) s))"
  by pat_completeness auto
termination
  by (relation "measure (\<lambda>(ws, s). length s)") auto

definition trim :: "string \<Rightarrow> string" where
  "trim s = rev (strip (map rev js_whitespace) (rev (strip js_whitespace s)))"

text \<open>
  \<^verbatim>\<open>uri.replace(pattern, replacement)\<close> with a string pattern: the first occurrence is
  replaced, a string without the pattern is returned as it is. (The replacement the binder
  passes is percent-encoded, so it holds no \<^verbatim>\<open>$\<close> pattern.)
\<close>

fun replace :: "string \<Rightarrow> string \<Rightarrow> string \<Rightarrow> string" where
  "replace pattern replacement [] = (if pattern = [] then replacement else [])"
| "replace pattern replacement (c # cs) =
     (if take (length pattern) (c # cs) = pattern
      then replacement @ drop (length pattern) (c # cs)
      else c # replace pattern replacement cs)"

text \<open>
  The properties every plain object inherits from \<^verbatim>\<open>Object.prototype\<close>: eleven
  built-in functions and the accessor \<^verbatim>\<open>__proto__\<close>, which yields the prototype
  itself, an object without enumerable properties.
\<close>

definition nativeFunction :: "string \<Rightarrow> js_value" where
  "nativeFunction n = Fun (''function '' @ n @ ''() { [native code] }'')"

definition objectPrototype :: js_object where
  "objectPrototype =
     [(''constructor'', nativeFunction ''Object''),
      (''__defineGetter__'', nativeFunction ''__defineGetter__''),
      (''__defineSetter__'', nativeFunction ''__defineSetter__''),
      (''hasOwnProperty'', nativeFunction ''hasOwnProperty''),
      (''__lookupGetter__'', nativeFunction ''__lookupGetter__''),
      (''__lookupSetter__'', nativeFunction ''__lookupSetter__''),
      (''isPrototypeOf'', nativeFunction ''isPrototypeOf''),
      (''propertyIsEnumerable'', nativeFunction ''propertyIsEnumerable''),
      (''toString'', nativeFunction ''toString''),
      (''valueOf'', nativeFunction ''valueOf''),
      (''toLocaleString'', nativeFunction ''toLocaleString''),
      (''__proto__'', Obj [])]"

definition inherited :: "string \<Rightarrow> js_value" where
  "inherited k = (case map_of objectPrototype k of None \<Rightarrow> Undefined | Some v \<Rightarrow> v)"

text \<open>
  The property read \<^verbatim>\<open>object[k]\<close> on a plain object: the own property if there is one,
  the inherited one otherwise. \<^verbatim>\<open>delete\<close> removes an own property only. Index access
  on an array.
\<close>

definition obj_get :: "js_object \<Rightarrow> string \<Rightarrow> js_value" where
  "obj_get object k = (case map_of object k of None \<Rightarrow> inherited k | Some v \<Rightarrow> v)"

definition obj_delete :: "js_object \<Rightarrow> string \<Rightarrow> js_object" where
  "obj_delete object k = filter (\<lambda>kv. fst kv \<noteq> k) object"

definition arr_get :: "js_value list \<Rightarrow> nat \<Rightarrow> js_value" where
  "arr_get array i = (if i < length array then array ! i else Undefined)"

section \<open>Errors\<close>

text \<open>
  The error classes the sources import and raise. \<open>UriParameterBindingError\<close> carries its
  message and the error it wraps, if any. \<open>TypeError\<close> is the error of the JavaScript
  runtime for a property read on \<^verbatim>\<open>undefined\<close>.
\<close>

datatype error =
    UriParameterBindingError string "error option"
  | TypeConversionError string
  | RegistrationError string
  | UriParameterSyntaxError string
  | TypeError


fun isTypeConversionError :: "error \<Rightarrow> bool" where
  "isTypeConversionError (TypeConversionError msg) = True"
| "isTypeConversionError e = False"

definition quoted :: "string \<Rightarrow> string" where
  "quoted s = [CHR 0x27] @ s @ [CHR 0x27]"

section \<open>UriParameter and UriParameterCollection\<close>

record UriParameter =
  name :: string
  required :: bool
  placeholder :: string

type_synonym UriParameterCollection = "UriParameter list"

text \<open>
  Modelled from the spec: the bodies of \<^verbatim>\<open>UriParameterCollection.getRequired\<close> and
  \<^verbatim>\<open>getParameter\<close> are missing (only their declarations are in the sources). The
  required subset in collection order, and the first parameter of a name or null.
\<close>

definition getRequired :: "UriParameterCollection \<Rightarrow> UriParameterCollection" where
  "getRequired ps = filter required ps"

definition getParameter :: "UriParameterCollection \<Rightarrow> string \<Rightarrow> UriParameter option" where
  "getParameter ps n = find (\<lambda>p. name p = n) ps"

text \<open>
  Modelled from the spec: \<^verbatim>\<open>UriParameterCollection.parseFromUri\<close> is missing. The
  template is scanned from left to right for tokens \<^verbatim>\<open>{name}\<close> (required) and
  \<^verbatim>\<open>{name?}\<close> (optional); the placeholder is the whole token; an empty name and an
  unterminated token are syntax errors. The second argument is the text of the token being
  read, reversed, when the scan is inside one.
\<close>

fun parseTokens ::
  "string \<Rightarrow> string option \<Rightarrow> UriParameterCollection \<Rightarrow> error + UriParameterCollection" where
  "parseTokens [] None acc = Inr (rev acc)"
| "parseTokens [] (Some tok) acc = Inl (UriParameterSyntaxError ''unterminated placeholder'')"
| "parseTokens (c # cs) None acc =
     (if c = CHR ''{'' then parseTokens cs (Some []) acc else parseTokens cs None acc)"
| "parseTokens (c # cs) (Some tok) acc =
     (if c = CHR ''}'' then
        (let body = rev tok;
             optional = (body \<noteq> [] \<and> last body = CHR ''?'');
             n = (if optional then butlast body else body)
         in if n = [] then Inl (UriParameterSyntaxError ''empty parameter name'')
            else parseTokens cs None
                   (\<lparr>name = n, required = \<not> optional,
                     placeholder = ''{'' @ body @ ''}''\<rparr> # acc))
      else parseTokens cs (Some (c # tok)) acc)"

definition parseFromUri :: "string \<Rightarrow> error + UriParameterCollection" where
  "parseFromUri uri = parseTokens uri None []"

section \<open>UriParameterBinder\<close>

text \<open>
  What a call of the configured conversion function does: it returns a string, returns
  the failure sentinel \<^verbatim>\<open>null\<close>, or raises a \<open>TypeConversionError\<close>.
\<close>

datatype conversion = Returns string | ReturnsNull | Raises string

record Configuration =
  bindGetParametersOption :: bool
  typeConversionFunction :: "js_value \<Rightarrow> conversion"

record UriParameterBinder =
  uri :: string
  parameters :: UriParameterCollection
  configuration :: Configuration

text \<open>The constructor: the collection is parsed from the template.\<close>

definition newUriParameterBinder :: "string \<Rightarrow> Configuration \<Rightarrow> error + UriParameterBinder" where
  "newUriParameterBinder u config =
     (case parseFromUri u of
        Inl e \<Rightarrow> Inl e
      | Inr ps \<Rightarrow> Inr \<lparr>uri = u, parameters = ps, configuration = config\<rparr>)"

text \<open>
  \<^verbatim>\<open>convertToString\<close> reads the conversion function of the binder's own configuration.
  A null result raises a \<open>UriParameterBindingError\<close>.
\<close>

definition convertToString :: "UriParameterBinder \<Rightarrow> js_value \<Rightarrow> error + string" where
  "convertToString b v =
     (case v of
        Str s \<Rightarrow> Inr (trim s)
      | _ \<Rightarrow>
        (case typeConversionFunction (configuration b) v of
           Raises msg \<Rightarrow> Inl (TypeConversionError msg)
         | ReturnsNull \<Rightarrow> Inl (UriParameterBindingError ''String conversion failed'' None)
         | Returns s \<Rightarrow> Inr (trim s)))"

function removeTrailingSlashes :: "string \<Rightarrow> string" where
  "removeTrailingSlashes u =
     (if u \<noteq> [] \<and> last u = CHR ''/'' then removeTrailingSlashes (butlast u) else u)"
  by pat_completeness auto
termination
  by (relation "measure length") auto

declare removeTrailingSlashes.simps [simp del]

text \<open>
  The parameter argument of \<^verbatim>\<open>bindParameter\<close>: a name, a parameter, or
  \<^verbatim>\<open>undefined\<close> (what \<^verbatim>\<open>this.parameters[0]\<close> is for an empty collection).
\<close>

datatype parameter_arg = ByName string | ByParameter UriParameter | NoParameter

text \<open>
  The local \<^verbatim>\<open>uriParameter\<close>: \<open>None\<close> is null (a name the collection does not have),
  \<open>Some None\<close> is undefined, which the test \<^verbatim>\<open>=== null\<close> lets through.
\<close>

fun resolveParameter :: "UriParameterBinder \<Rightarrow> parameter_arg \<Rightarrow> UriParameter option option" where
  "resolveParameter b (ByName n) =
     (case getParameter (parameters b) n of None \<Rightarrow> None | Some p \<Rightarrow> Some (Some p))"
| "resolveParameter b (ByParameter p) = Some (Some p)"
| "resolveParameter b NoParameter = Some None"

fun parameterText :: "parameter_arg \<Rightarrow> string" where
  "parameterText (ByName n) = n"
| "parameterText (ByParameter p) = ''[object Object]''"
| "parameterText NoParameter = ''undefined''"

text \<open>
  Reading a property of \<^verbatim>\<open>uriParameter\<close> (\<^verbatim>\<open>uriParameter.required\<close>,
  \<^verbatim>\<open>uriParameter.name\<close>): a \<open>TypeError\<close> when it is undefined.
\<close>

definition deref :: "UriParameter option \<Rightarrow> error + UriParameter" where
  "deref up = (case up of None \<Rightarrow> Inl TypeError | Some p \<Rightarrow> Inr p)"

definition bindParameter ::
  "UriParameterBinder \<Rightarrow> string \<Rightarrow> parameter_arg \<Rightarrow> js_value \<Rightarrow> Configuration \<Rightarrow> error + string" where
  "bindParameter b u parameter value0 config =
     (case resolveParameter b parameter of
        None \<Rightarrow>
          Inl (UriParameterBindingError
                 (''Cannot bind value to non-existent parameter ''
                    @ quoted (parameterText parameter) @ ''.'')
                 None)
      | Some up \<Rightarrow>
        (case (if value0 = Undefined then
                 (case deref up of
                    Inl e \<Rightarrow> Inl e
                  | Inr p \<Rightarrow>
                      if required p then
                        Inl (UriParameterBindingError
                               (''Cannot bind missing value for required parameter ''
                                  @ quoted (name p) @ ''.'')
                               None)
                      else Inr (Str []))
               else Inr value0) of
           Inl e \<Rightarrow> Inl e
         | Inr original \<Rightarrow>
           (case convertToString b original of
              Inl e \<Rightarrow>
                (if isTypeConversionError e then
                   (case deref up of
                      Inl e' \<Rightarrow> Inl e'
                    | Inr p \<Rightarrow>
                        Inl (UriParameterBindingError
                               (''Cannot bind value for parameter '' @ quoted (name p)
                                  @ '', unable to convert '' @ js_typeof original
                                  @ '' to string.'')
                               (Some e)))
                 else Inl e)
            | Inr v \<Rightarrow>
              (case deref up of
                 Inl e \<Rightarrow> Inl e
               | Inr p \<Rightarrow>
                   if required p \<and> length v = 0 then
                     (if js_typeof original = ''string'' then
                        Inl (UriParameterBindingError
                               (''Cannot bind empty string for required parameter ''
                                  @ name p @ ''.'')
                               None)
                      else
                        Inl (UriParameterBindingError
                               (''Cannot bind given '' @ js_typeof original
                                  @ '' value for required parameter '' @ name p
                                  @ '' because string conversion results in an empty string.'')
                               None))
                   else
                     Inr (removeTrailingSlashes
                            (replace (placeholder p) (encodeURIComponent v) u))))))"

text \<open>
  \<^verbatim>\<open>bindGetParameters\<close>: the loop over \<^verbatim>\<open>Object.entries(values)\<close>. The separator
  is \<^verbatim>\<open>?\<close> when the URL built so far is the empty string and \<^verbatim>\<open>&\<close> otherwise.
\<close>

fun bindGetParameters :: "string \<Rightarrow> js_object \<Rightarrow> Configuration \<Rightarrow> string" where
  "bindGetParameters u [] config = u"
| "bindGetParameters u ((key, v) # entries) config =
     bindGetParameters
       ((if u = [] then u @ ''?'' else u @ ''&'')
          @ encodeURIComponent key @ ''='' @ encodeURIComponent (ToString v))
       entries config"

text \<open>
  \<^verbatim>\<open>bindObject\<close>: the \<^verbatim>\<open>forEach\<close> over the parameters binds the property named as
  the parameter and then deletes it from the caller's object; an error leaves the loop.
  The object as the loop leaves it is returned beside the result.
\<close>

fun bindObjectEach ::
  "UriParameterBinder \<Rightarrow> UriParameterCollection \<Rightarrow> string \<Rightarrow> js_object \<Rightarrow> Configuration
     \<Rightarrow> (error + string) \<times> js_object" where
  "bindObjectEach b [] u object config = (Inr u, object)"
| "bindObjectEach b (p # ps) u object config =
     (case bindParameter b u (ByParameter p) (obj_get object (name p)) config of
        Inl e \<Rightarrow> (Inl e, object)
      | Inr u' \<Rightarrow> bindObjectEach b ps u' (obj_delete object (name p)) config)"

definition bindObject ::
  "UriParameterBinder \<Rightarrow> string \<Rightarrow> js_object \<Rightarrow> Configuration \<Rightarrow> (error + string) \<times> js_object" where
  "bindObject b u object config =
     (case bindObjectEach b (parameters b) u object config of
        (Inl e, object') \<Rightarrow> (Inl e, object')
      | (Inr u', object') \<Rightarrow>
          if bindGetParametersOption config
          then (Inr (bindGetParameters u' object' config), object')
          else (Inr u', object'))"

text \<open>\<^verbatim>\<open>bindArray\<close>: the parameter at index i takes \<^verbatim>\<open>array[i]\<close>.\<close>

fun bindArrayEach ::
  "UriParameterBinder \<Rightarrow> UriParameterCollection \<Rightarrow> nat \<Rightarrow> string \<Rightarrow> js_value list
     \<Rightarrow> Configuration \<Rightarrow> error + string" where
  "bindArrayEach b [] index u array config = Inr u"
| "bindArrayEach b (p # ps) index u array config =
     (case bindParameter b u (ByParameter p) (arr_get array index) config of
        Inl e \<Rightarrow> Inl e
      | Inr u' \<Rightarrow> bindArrayEach b ps (Suc index) u' array config)"

definition bindArray ::
  "UriParameterBinder \<Rightarrow> string \<Rightarrow> js_value list \<Rightarrow> Configuration \<Rightarrow> error + string" where
  "bindArray b u array config = bindArrayEach b (parameters b) 0 u array config"

text \<open>\<^verbatim>\<open>this.parameters[0]\<close>, undefined for an empty collection.\<close>

definition firstParameter :: "UriParameterCollection \<Rightarrow> parameter_arg" where
  "firstParameter ps = (case ps of [] \<Rightarrow> NoParameter | p # rest \<Rightarrow> ByParameter p)"

definition bindValue ::
  "UriParameterBinder \<Rightarrow> string \<Rightarrow> js_value \<Rightarrow> Configuration \<Rightarrow> error + string" where
  "bindValue b u v config =
     (let required_ps = getRequired (parameters b) in
      if length required_ps > 1 then
        Inl (UriParameterBindingError
               (''Cannot bind a given '' @ js_typeof v
                  @ '' as uri parameters: this type is handled as a plain value and can only be bound to one parameter but there are ''
                  @ decimal_nat (length required_ps) @ '' required parameters.'')
               None)
      else bindParameter b u (firstParameter (parameters b)) v config)"

text \<open>
  \<^verbatim>\<open>bind\<close>: the override configuration replaces the binder's own; the result comes
  with the value as the call leaves it (an object loses the keys \<^verbatim>\<open>bindObject\<close>
  deletes).
\<close>

definition bind ::
  "UriParameterBinder \<Rightarrow> js_value \<Rightarrow> Configuration option \<Rightarrow> (error + string) \<times> js_value" where
  "bind b values config =
     (let configuration' = (case config of None \<Rightarrow> configuration b | Some c \<Rightarrow> c) in
      if length (parameters b) = 0 \<and> bindGetParametersOption configuration' = False
      then (Inr (uri b), values)
      else
        (case values of
           Arr array \<Rightarrow> (bindArray b (uri b) array configuration', values)
         | Obj object \<Rightarrow>
             (case bindObject b (uri b) object configuration' of
                (r, object') \<Rightarrow> (r, Obj object'))
         | _ \<Rightarrow> (bindValue b (uri b) values configuration', values)))"


text \<open>
  Modelled from the spec: the defaults of the binder's \<^verbatim>\<open>Configuration\<close> class are
  missing. GET-parameter binding is off, and the conversion function renders numbers and
  booleans and fails on every other value.
\<close>

definition defaultConversion :: "js_value \<Rightarrow> conversion" where
  "defaultConversion v =
     (case v of Num n \<Rightarrow> Returns (decimal n)
              | Bool t \<Rightarrow> Returns (if t then ''true'' else ''false'')
              | _ \<Rightarrow> ReturnsNull)"

definition defaultConfiguration :: Configuration where
  "defaultConfiguration =
     \<lparr>bindGetParametersOption = False, typeConversionFunction = defaultConversion\<rparr>"


text \<open>The call \<^verbatim>\<open>new UriParameterBinder(uri, config).bind(values)\<close>, its result only.\<close>

definition bindTemplate :: "string \<Rightarrow> Configuration \<Rightarrow> js_value \<Rightarrow> error + string" where
  "bindTemplate u config values =
     (case newUriParameterBinder u config of
        Inl e \<Rightarrow> Inl e
      | Inr b \<Rightarrow> fst (bind b values None))"

text \<open>
  The values \<^verbatim>\<open>bind\<close> hands to \<^verbatim>\<open>bindValue\<close>: those that are neither an array
  nor a non-null object.
\<close>

fun isArray :: "js_value \<Rightarrow> bool" where
  "isArray (Arr xs) = True"
| "isArray v = False"

definition isScalar :: "js_value \<Rightarrow> bool" where
  "isScalar v \<longleftrightarrow> \<not> isArray v \<and> \<not> (js_typeof v = ''object'' \<and> v \<noteq> Null)"


section \<open>Router\<close>

text \<open>
  A request method is the string it is at run time. The Route class is missing from the
  sources; the Router reads a route's name, method and url (the fields \<open>routeName\<close>,
  \<open>routeMethod\<close> and \<open>url\<close>) and calls its \<^verbatim>\<open>applyPrefix\<close>.
\<close>

type_synonym RequestMethodType = string

record Route =
  routeName :: string
  routeMethod :: RequestMethodType
  url :: string

text \<open>
  Modelled from the spec: \<^verbatim>\<open>Route.applyPrefix\<close> is missing. It rewrites the route by
  prepending the prefix to its url.
\<close>

definition applyPrefix :: "Route \<Rightarrow> string \<Rightarrow> Route" where
  "applyPrefix route p = route\<lparr>url := p @ url route\<rparr>"

text \<open>
  Modelled from the spec: the RouterConfiguration class is missing. Its two options, both
  false by default.
\<close>

record RouterConfiguration =
  immutable :: bool
  duplicates :: bool

definition defaultRouterConfiguration :: RouterConfiguration where
  "defaultRouterConfiguration = \<lparr>immutable = False, duplicates = False\<rparr>"

record Router =
  routes :: "string \<rightharpoonup> Route"
  config :: RouterConfiguration
  signatures :: "string \<rightharpoonup> string"
  routePrefix :: "string option"

definition newRouter :: "RouterConfiguration \<Rightarrow> Router" where
  "newRouter c = \<lparr>routes = Map.empty, config = c, signatures = Map.empty, routePrefix = None\<rparr>"

definition routeSignature :: "RequestMethodType \<Rightarrow> string \<Rightarrow> string" where
  "routeSignature m u = m @ '':'' @ u"

definition immutableMessage :: "string \<Rightarrow> string" where
  "immutableMessage n = ''Route '' @ quoted n @ '' is already defined and immutable!''"

definition duplicateMessage :: "string \<Rightarrow> string \<Rightarrow> string" where
  "duplicateMessage n oldRoute =
     ''Route '' @ quoted n @ '' is a duplicate of existing route '' @ quoted oldRoute
       @ ''. If you want to enable multiple aliases for the same url and method combination, set ''
       @ quoted ''duplicates'' @ '' option as true.''"

text \<open>
  A Router method takes the state and returns the error it raises, if any, with the state
  it leaves. Routes are values: the route the registry stores is the argument as
  \<^verbatim>\<open>applyPrefix\<close> left it, and a call is not passed a route object that the registry
  already holds (\<^verbatim>\<open>register\<close> always builds a new one).

  \<open>prefixedRoute\<close> is the route after
  \<^verbatim>\<open>if(this.routePrefix !== null) route.applyPrefix(this.routePrefix)\<close>.
\<close>

definition prefixedRoute :: "Router \<Rightarrow> Route \<Rightarrow> Route" where
  "prefixedRoute r route0 =
     (case routePrefix r of None \<Rightarrow> route0 | Some p \<Rightarrow> applyPrefix route0 p)"

definition registerRoute :: "Route \<Rightarrow> Router \<Rightarrow> error option \<times> Router" where
  "registerRoute route0 r =
     (if immutable (config r) \<and> routes r (routeName route0) \<noteq> None then
        (Some (RegistrationError (immutableMessage (routeName route0))), r)
      else
        (let route = prefixedRoute r route0;
             signature = routeSignature (routeMethod route) (url route);
             oldRoute = signatures r signature;
             registered = r\<lparr>signatures := (signatures r)(signature \<mapsto> routeName route),
                            routes := (routes r)(routeName route \<mapsto> route)\<rparr>
         in case oldRoute of
              None \<Rightarrow> (None, registered)
            | Some old \<Rightarrow>
                if duplicates (config r) = False then
                  (Some (RegistrationError (duplicateMessage (routeName route) old)), r)
                else (None, registered)))"

definition register :: "string \<Rightarrow> RequestMethodType \<Rightarrow> string \<Rightarrow> Router \<Rightarrow> error option \<times> Router" where
  "register n m u r = registerRoute \<lparr>routeName = n, routeMethod = m, url = u\<rparr> r"

text \<open>The five shorthands, each a \<^verbatim>\<open>register\<close> call with its method.\<close>

definition get :: "string \<Rightarrow> string \<Rightarrow> Router \<Rightarrow> error option \<times> Router" where
  "get n u r = register n ''GET'' u r"

definition post :: "string \<Rightarrow> string \<Rightarrow> Router \<Rightarrow> error option \<times> Router" where
  "post n u r = register n ''POST'' u r"

definition put :: "string \<Rightarrow> string \<Rightarrow> Router \<Rightarrow> error option \<times> Router" where
  "put n u r = register n ''PUT'' u r"

definition patch :: "string \<Rightarrow> string \<Rightarrow> Router \<Rightarrow> error option \<times> Router" where
  "patch n u r = register n ''PATCH'' u r"

definition delete :: "string \<Rightarrow> string \<Rightarrow> Router \<Rightarrow> error option \<times> Router" where
  "delete n u r = register n ''DELETE'' u r"

definition route :: "Router \<Rightarrow> string \<Rightarrow> Route option" where
  "route r n = routes r n"

definition hasRouteWithName :: "Router \<Rightarrow> string \<Rightarrow> bool" where
  "hasRouteWithName r n \<longleftrightarrow> routes r n \<noteq> None"

text \<open>
  \<^verbatim>\<open>prefix\<close>: the callback runs on the router with the prefix set; the statement that
  clears the prefix is reached only when the callback returns.
\<close>

definition prefix ::
  "string \<Rightarrow> (Router \<Rightarrow> error option \<times> Router) \<Rightarrow> Router \<Rightarrow> error option \<times> Router" where
  "prefix p callback r =
     (case callback (r\<lparr>routePrefix := Some p\<rparr>) of
        (Some e, r') \<Rightarrow> (Some e, r')
      | (None, r') \<Rightarrow> (None, r'\<lparr>routePrefix := None\<rparr>))"

lemma prefix_cong [fundef_cong]:
  "p = p' \<Longrightarrow> r = r' \<Longrightarrow> (\<And>s. callback s = callback' s) \<Longrightarrow>
     prefix p callback r = prefix p' callback' r'"
  by (simp add: prefix_def)

text \<open>
  The calls a caller makes on a router. The callback of a \<^verbatim>\<open>prefix\<close> call is the
  list of calls it makes in turn; the first one that raises ends the callback.
\<close>

datatype call =
    Register string RequestMethodType string
  | RegisterRoute Route
  | Prefix string "call list"

fun exec :: "call \<Rightarrow> Router \<Rightarrow> error option \<times> Router"
  and execBody :: "call list \<Rightarrow> Router \<Rightarrow> error option \<times> Router" where
  "exec (Register n m u) r = register n m u r"
| "exec (RegisterRoute rt) r = registerRoute rt r"
| "exec (Prefix p body) r = prefix p (\<lambda>s. execBody body s) r"
| "execBody [] r = (None, r)"
| "execBody (c # cs) r =
     (case exec c r of (Some e, r') \<Rightarrow> (Some e, r') | (None, r') \<Rightarrow> execBody cs r')"

text \<open>
  The states a router configured with \<open>c\<close> reaches: the fresh router, and the state any
  call leaves, whether it returns or raises.
\<close>

inductive reachable :: "RouterConfiguration \<Rightarrow> Router \<Rightarrow> bool" for c where
  fresh: "reachable c (newRouter c)"
| after_call: "reachable c r \<Longrightarrow> reachable c (snd (exec cl r))"

text \<open>
  The correspondence of the two maps: the signature of every stored route is a key of
  \<open>signatures\<close> that leads back to the route's name, and every entry of \<open>signatures\<close>
  leads to a stored route with that signature.
\<close>

definition oneToOne :: "Router \<Rightarrow> bool" where
  "oneToOne r \<longleftrightarrow>
     (\<forall>n rt. routes r n = Some rt \<longrightarrow>
        signatures r (routeSignature (routeMethod rt) (url rt)) = Some n)
     \<and> (\<forall>s n. signatures r s = Some n \<longrightarrow>
          (\<exists>rt. routes r n = Some rt \<and> routeSignature (routeMethod rt) (url rt) = s))"

section \<open>ApplyConfiguration\<close>

text \<open>
  Modelled from the spec: the Uri and Route classes the middleware reads are missing. A Uri
  is its template string (what \<^verbatim>\<open>toString\<close> returns) and its configuration object;
  a route has a name, a method, a Uri and the metadata object \<^verbatim>\<open>extra\<close>. Objects are
  maps from keys to values.
\<close>

record Uri =
  uriString :: string
  uriConfiguration :: "string \<rightharpoonup> js_value"

record MiddlewareRoute =
  route_name :: string
  route_method :: RequestMethodType
  route_uri :: Uri
  route_extra :: "string \<rightharpoonup> js_value"

record RouteRegistrarConfiguration =
  config_prefix :: string
  config_extra :: "string \<rightharpoonup> js_value"
  config_uris :: "string \<rightharpoonup> js_value"

text \<open>
  \<^verbatim>\<open>Object.assign(target, source)\<close> writes the properties of the source into the
  target object itself and returns the target.
\<close>

definition Object_assign :: "(string \<rightharpoonup> js_value) \<Rightarrow> (string \<rightharpoonup> js_value) \<Rightarrow> (string \<rightharpoonup> js_value)" where
  "Object_assign target source = target ++ source"

text \<open>
  The two methods return, beside their result, the route passed in as the call leaves it:
  the targets of the two \<^verbatim>\<open>Object.assign\<close> calls are objects of that route.
\<close>

definition updateUri :: "RouteRegistrarConfiguration \<Rightarrow> MiddlewareRoute \<Rightarrow> MiddlewareRoute \<times> Uri" where
  "updateUri c rt =
     (if length (config_prefix c) > 0 then
        (let uriString' = config_prefix c @ uriString (route_uri rt);
             uriConfig = Object_assign (uriConfiguration (route_uri rt)) (config_uris c);
             rt' = rt\<lparr>route_uri := (route_uri rt)\<lparr>uriConfiguration := uriConfig\<rparr>\<rparr>
         in (rt', \<lparr>uriString = uriString', uriConfiguration = uriConfig\<rparr>))
      else (rt, route_uri rt))"

definition apply_route :: "RouteRegistrarConfiguration \<Rightarrow> MiddlewareRoute \<Rightarrow> MiddlewareRoute \<times> MiddlewareRoute" where
  "apply_route c rt =
     (case updateUri c rt of
        (rt1, u) \<Rightarrow>
          (let extra = Object_assign (route_extra rt1) (config_extra c);
               rt2 = rt1\<lparr>route_extra := extra\<rparr>
           in (rt2, \<lparr>route_name = route_name rt2, route_method = route_method rt2,
                     route_uri = u, route_extra = extra\<rparr>)))"

section \<open>Facts about the string functions\<close>

lemma removeTrailingSlashes_eq:
  "removeTrailingSlashes u = rev (dropWhile (\<lambda>c. c = CHR ''/'') (rev u))"
proof (induction u rule: removeTrailingSlashes.induct)
  case (1 u)
  show ?case
  proof (cases "u \<noteq> [] \<and> last u = CHR ''/''")
    case True
    then obtain v where u: "u = v @ ''/''"
      by (metis append_butlast_last_id)
    have "removeTrailingSlashes u = removeTrailingSlashes (butlast u)"
      using True by (subst removeTrailingSlashes.simps) simp
    also have "\<dots> = rev (dropWhile (\<lambda>c. c = CHR ''/'') (rev (butlast u)))"
      using 1 True by simp
    finally show ?thesis using u by simp
  next
    case False
    have "removeTrailingSlashes u = u"
      using False by (subst removeTrailingSlashes.simps) auto
    moreover have "rev (dropWhile (\<lambda>c. c = CHR ''/'') (rev u)) = u"
      using False by (cases u rule: rev_cases) auto
    ultimately show ?thesis by simp
  qed
qed


lemma bindGetParameters_nonempty:
  "u \<noteq> [] \<Longrightarrow>
   bindGetParameters u entries c =
     u @ concat (map (\<lambda>(k, v). ''&'' @ encodeURIComponent k @ ''='' @ encodeURIComponent (ToString v)) entries)"
  by (induction entries arbitrary: u) auto


lemma parse_search: "parseFromUri ''/search'' = Inr []"
  by (simp add: parseFromUri_def)


lemma convertToString_null:
  "\<forall>s. v \<noteq> Str s \<Longrightarrow> typeConversionFunction (configuration b) v = ReturnsNull \<Longrightarrow>
     convertToString b v = Inl (UriParameterBindingError ''String conversion failed'' None)"
  by (cases v) (auto simp: convertToString_def)

section \<open>Binding: query parameters, conversion failures, scalars without parameters\<close>

text \<open>
  Claim C1. The claim: with no placeholders and \<^verbatim>\<open>bindGetParameters:true\<close>, the first
  key/value pair is joined by \<^verbatim>\<open>?\<close> and binding \<^verbatim>\<open>{q: "a b", page: 2}\<close> against
  \<^verbatim>\<open>/search\<close> gives \<^verbatim>\<open>/search?q=a%20b&page=2\<close>. The code tests whether the URL built
  so far is the empty string, so the first pair after a non-empty template is joined by
  \<^verbatim>\<open>&\<close>: the template parses to the empty collection and the call returns
  \<^verbatim>\<open>/search&q=a%20b&page=2\<close>.
\<close>

theorem bind_search_joins_first_pair_by_ampersand:
  "bindTemplate ''/search'' (defaultConfiguration\<lparr>bindGetParametersOption := True\<rparr>)
     (Obj [(''q'', Str ''a b''), (''page'', Num 2)])
     = Inr ''/search&q=a%20b&page=2''"
  by (simp add: bindTemplate_def newUriParameterBinder_def parse_search bind_def bindObject_def
      defaultConfiguration_def encodeURIComponent_def unreserved_def percent_def decimal_def)

text \<open>
  Claim C2. The claim: a null result of the conversion function is raised as a conversion
  error, which \<^verbatim>\<open>bindParameter\<close> catches and wraps into a \<open>UriParameterBindingError\<close>
  that names the parameter and the type of the value. The code of \<^verbatim>\<open>convertToString\<close>
  raises a \<open>UriParameterBindingError\<close> itself; the handler of \<^verbatim>\<open>bindParameter\<close> tests
  for a \<open>TypeConversionError\<close> and raises it again as it is: for every parameter and every
  value that is neither a string nor undefined, the error has the message
  \<^verbatim>\<open>String conversion failed\<close>, without the parameter's name or the value's type, and
  wraps no cause; \<^verbatim>\<open>bind\<close> raises that error when the object's value for the first
  parameter is such a value.
\<close>

theorem null_conversion_is_not_wrapped:
  "\<forall>s. v \<noteq> Str s \<Longrightarrow> v \<noteq> Undefined \<Longrightarrow>
   typeConversionFunction (configuration b) v = ReturnsNull \<Longrightarrow>
   bindParameter b u (ByParameter p) v c
     = Inl (UriParameterBindingError ''String conversion failed'' None)
   \<and> (parameters b = p # ps \<and> obj_get object (name p) = v \<longrightarrow>
        bind b (Obj object) c'
          = (Inl (UriParameterBindingError ''String conversion failed'' None), Obj object))"
proof -
  assume a: "\<forall>s. v \<noteq> Str s" "v \<noteq> Undefined"
    "typeConversionFunction (configuration b) v = ReturnsNull"
  have one: "\<And>u c. bindParameter b u (ByParameter p) v c
     = Inl (UriParameterBindingError ''String conversion failed'' None)"
    using a by (simp add: bindParameter_def convertToString_null)
  show ?thesis
    using one by (simp add: bind_def bindObject_def Let_def)
qed

theorem null_conversion_is_not_wrapped_witness:
  "(\<forall>s. Null \<noteq> Str s) \<and> Null \<noteq> Undefined
   \<and> typeConversionFunction (configuration \<lparr>uri = ''/users/{id}'',
         parameters = [\<lparr>name = ''id'', required = True, placeholder = ''{id}''\<rparr>],
         configuration = defaultConfiguration\<rparr>) Null = ReturnsNull
   \<and> obj_get [(''id'', Null)] (name \<lparr>name = ''id'', required = True, placeholder = ''{id}''\<rparr>)
       = Null
   \<and> bind \<lparr>uri = ''/users/{id}'',
         parameters = [\<lparr>name = ''id'', required = True, placeholder = ''{id}''\<rparr>],
         configuration = defaultConfiguration\<rparr> (Obj [(''id'', Null)]) None
       = (Inl (UriParameterBindingError ''String conversion failed'' None), Obj [(''id'', Null)])"
  using null_conversion_is_not_wrapped [where v = Null and b = "\<lparr>uri = ''/users/{id}'',
         parameters = [\<lparr>name = ''id'', required = True, placeholder = ''{id}''\<rparr>],
         configuration = defaultConfiguration\<rparr>"
       and p = "\<lparr>name = ''id'', required = True, placeholder = ''{id}''\<rparr>" and ps = "[]"
       and object = "[(''id'', Null)]" and c' = None]
  by (simp add: defaultConfiguration_def defaultConversion_def obj_get_def)

text \<open>
  Claim C7. The claim: \<^verbatim>\<open>bind\<close> returns a string or raises a
  \<open>UriParameterBindingError\<close>, also for a scalar bound against an empty collection with
  \<^verbatim>\<open>bindGetParameters:true\<close>. There \<^verbatim>\<open>bindValue\<close> passes \<^verbatim>\<open>this.parameters[0]\<close>,
  which is undefined; the test \<^verbatim>\<open>uriParameter === null\<close> lets it through and the first
  property read on it raises a \<open>TypeError\<close>.
\<close>

theorem bind_scalar_without_parameters_raises_TypeError:
  "bindTemplate ''/search'' (defaultConfiguration\<lparr>bindGetParametersOption := True\<rparr>) (Num 5)
     = Inl TypeError
   \<and> bindTemplate ''/search'' (defaultConfiguration\<lparr>bindGetParametersOption := True\<rparr>)
         (Str ''x'')
     = Inl TypeError
   \<and> bindTemplate ''/search'' (defaultConfiguration\<lparr>bindGetParametersOption := True\<rparr>)
         Undefined
     = Inl TypeError"
  by (simp add: bindTemplate_def newUriParameterBinder_def parse_search bind_def bindValue_def
      getRequired_def firstParameter_def bindParameter_def deref_def convertToString_def
      defaultConfiguration_def defaultConversion_def)

section \<open>Binding objects and scalars\<close>













lemma bind_scalar:
  "isScalar v \<Longrightarrow>
   bind b v c =
     (if length (parameters b) = 0
         \<and> bindGetParametersOption (case c of None \<Rightarrow> configuration b | Some c' \<Rightarrow> c') = False
      then (Inr (uri b), v)
      else (bindValue b (uri b) v (case c of None \<Rightarrow> configuration b | Some c' \<Rightarrow> c'), v))"
  by (cases v) (simp_all add: bind_def isScalar_def Let_def)

text \<open>
  Claim C8, as stated, fails. The claim: with at most one required parameter a scalar is
  bound to the first parameter of the collection. The empty collection has at most one
  required parameter and no first parameter: \<^verbatim>\<open>bind\<close> returns the template as it is,
  before it looks at the value; with \<^verbatim>\<open>bindGetParameters:true\<close> the call reaches
  \<^verbatim>\<open>bindValue\<close> and raises a \<open>TypeError\<close>.
\<close>

theorem bind_scalar_empty_collection:
  "isScalar (Num 5)
   \<and> parameters \<lparr>uri = ''/search'', parameters = [], configuration = defaultConfiguration\<rparr> = []
   \<and> length (getRequired (parameters
         \<lparr>uri = ''/search'', parameters = [], configuration = defaultConfiguration\<rparr>)) \<le> 1
   \<and> bind \<lparr>uri = ''/search'', parameters = [], configuration = defaultConfiguration\<rparr>
         (Num 5) None
       = (Inr ''/search'', Num 5)
   \<and> bind \<lparr>uri = ''/search'', parameters = [],
            configuration = defaultConfiguration\<lparr>bindGetParametersOption := True\<rparr>\<rparr>
         (Num 5) None
       = (Inl TypeError, Num 5)"
  by (simp add: isScalar_def getRequired_def bind_def bindValue_def firstParameter_def
      bindParameter_def deref_def convertToString_def defaultConfiguration_def
      defaultConversion_def)

text \<open>
  Claim C8, amended. Binding a scalar fails with a \<open>UriParameterBindingError\<close> when the
  collection has more than one required parameter. When it has at most one required
  parameter and is not empty, the scalar is bound to the first parameter of the collection
  (required or not). For the empty collection, without GET-parameter binding, \<^verbatim>\<open>bind\<close>
  returns the template as it is.
\<close>

theorem bind_scalar_first_parameter:
  "isScalar v \<Longrightarrow>
   (1 < length (getRequired (parameters b)) \<longrightarrow>
      (\<exists>msg. bind b v c = (Inl (UriParameterBindingError msg None), v)))
   \<and> (length (getRequired (parameters b)) \<le> 1 \<longrightarrow>
        (\<forall>p rest. parameters b = p # rest \<longrightarrow>
           bind b v c =
             (bindParameter b (uri b) (ByParameter p) v
                (case c of None \<Rightarrow> configuration b | Some c' \<Rightarrow> c'), v)))
   \<and> (parameters b = []
        \<and> \<not> bindGetParametersOption (case c of None \<Rightarrow> configuration b | Some c' \<Rightarrow> c')
      \<longrightarrow> bind b v c = (Inr (uri b), v))"
proof (intro conjI impI allI)
  assume s: "isScalar v" and many: "1 < length (getRequired (parameters b))"
  then have "parameters b \<noteq> []"
    by (auto simp: getRequired_def)
  then show "\<exists>msg. bind b v c = (Inl (UriParameterBindingError msg None), v)"
    using many by (simp add: bind_scalar [OF s] bindValue_def Let_def)
next
  fix p rest
  assume s: "isScalar v" and few: "length (getRequired (parameters b)) \<le> 1"
    and ps: "parameters b = p # rest"
  then show "bind b v c =
             (bindParameter b (uri b) (ByParameter p) v
                (case c of None \<Rightarrow> configuration b | Some c' \<Rightarrow> c'), v)"
    by (simp add: bind_scalar [OF s] bindValue_def Let_def firstParameter_def)
next
  assume s: "isScalar v"
    and e: "parameters b = []
        \<and> \<not> bindGetParametersOption (case c of None \<Rightarrow> configuration b | Some c' \<Rightarrow> c')"
  then show "bind b v c = (Inr (uri b), v)"
    by (simp add: bind_scalar [OF s])
qed

theorem bind_scalar_first_parameter_witness:
  "isScalar (Num 7)
   \<and> 1 < length (getRequired (parameters \<lparr>uri = ''/a/{x}/{y}'',
          parameters = [\<lparr>name = ''x'', required = True, placeholder = ''{x}''\<rparr>,
                        \<lparr>name = ''y'', required = True, placeholder = ''{y}''\<rparr>],
          configuration = defaultConfiguration\<rparr>))
   \<and> (\<exists>msg. bind \<lparr>uri = ''/a/{x}/{y}'',
          parameters = [\<lparr>name = ''x'', required = True, placeholder = ''{x}''\<rparr>,
                        \<lparr>name = ''y'', required = True, placeholder = ''{y}''\<rparr>],
          configuration = defaultConfiguration\<rparr> (Num 7) None
        = (Inl (UriParameterBindingError msg None), Num 7))
   \<and> length (getRequired (parameters \<lparr>uri = ''/a/{x?}/{y}'',
          parameters = [\<lparr>name = ''x'', required = False, placeholder = ''{x?}''\<rparr>,
                        \<lparr>name = ''y'', required = True, placeholder = ''{y}''\<rparr>],
          configuration = defaultConfiguration\<rparr>)) \<le> 1
   \<and> bind \<lparr>uri = ''/a/{x?}/{y}'',
          parameters = [\<lparr>name = ''x'', required = False, placeholder = ''{x?}''\<rparr>,
                        \<lparr>name = ''y'', required = True, placeholder = ''{y}''\<rparr>],
          configuration = defaultConfiguration\<rparr> (Num 7) None
        = (Inr ''/a/7/{y}'', Num 7)
   \<and> parameters \<lparr>uri = ''/search'', parameters = [], configuration = defaultConfiguration\<rparr> = []
   \<and> \<not> bindGetParametersOption
          (configuration \<lparr>uri = ''/search'', parameters = [], configuration = defaultConfiguration\<rparr>)
   \<and> bind \<lparr>uri = ''/search'', parameters = [], configuration = defaultConfiguration\<rparr>
         (Num 7) None
        = (Inr ''/search'', Num 7)"
  using bind_scalar_first_parameter [of "Num 7" "\<lparr>uri = ''/a/{x}/{y}'',
          parameters = [\<lparr>name = ''x'', required = True, placeholder = ''{x}''\<rparr>,
                        \<lparr>name = ''y'', required = True, placeholder = ''{y}''\<rparr>],
          configuration = defaultConfiguration\<rparr>" None]
    bind_scalar_first_parameter [of "Num 7" "\<lparr>uri = ''/a/{x?}/{y}'',
          parameters = [\<lparr>name = ''x'', required = False, placeholder = ''{x?}''\<rparr>,
                        \<lparr>name = ''y'', required = True, placeholder = ''{y}''\<rparr>],
          configuration = defaultConfiguration\<rparr>" None]
    bind_scalar_first_parameter [of "Num 7"
        "\<lparr>uri = ''/search'', parameters = [], configuration = defaultConfiguration\<rparr>" None]
  by (simp add: isScalar_def getRequired_def bindParameter_def deref_def convertToString_def
      defaultConversion_def defaultConfiguration_def encodeURIComponent_def unreserved_def
      percent_def decimal_def trim_def js_whitespace_def ws_len_def removeTrailingSlashes_eq)







section \<open>The registry\<close>

lemma exec_preserves:
  assumes reg: "\<And>rt r. P r \<Longrightarrow> P (snd (registerRoute rt r))"
    and pre: "\<And>r p. P r \<Longrightarrow> P (r\<lparr>routePrefix := p\<rparr>)"
  shows "P r \<Longrightarrow> P (snd (exec cl r))"
    and "P r \<Longrightarrow> P (snd (execBody cls r))"
proof (induction cl r and cls r rule: exec_execBody.induct)
  case (1 n m u r)
  then show ?case by (simp add: register_def reg)
next
  case (2 rt r)
  then show ?case by (simp add: reg)
next
  case (3 p body r)
  have "P (r\<lparr>routePrefix := Some p\<rparr>)" using 3(2) by (rule pre)
  then have "P (snd (execBody body (r\<lparr>routePrefix := Some p\<rparr>)))" by (rule 3(1))
  then show ?case
    by (auto simp: prefix_def pre split: prod.splits option.splits)
next
  case (4 r)
  then show ?case by simp
next
  case (5 c cs r)
  show ?case
  proof (cases "exec c r")
    case (Pair res r')
    have r': "P r'" using 5(1) [OF 5(3)] Pair by simp
    show ?thesis
    proof (cases res)
      case None
      then show ?thesis using 5(2) [OF Pair [symmetric] None r'] Pair by simp
    next
      case (Some e)
      then show ?thesis using r' Pair by simp
    qed
  qed
qed

lemma reachable_invariant:
  assumes init: "P (newRouter c)"
    and reg: "\<And>rt r. P r \<Longrightarrow> P (snd (registerRoute rt r))"
    and pre: "\<And>r p. P r \<Longrightarrow> P (r\<lparr>routePrefix := p\<rparr>)"
  shows "reachable c r \<Longrightarrow> P r"
proof (induction rule: reachable.induct)
  case fresh
  show ?case by (rule init)
next
  case (after_call r cl)
  then show ?case using exec_preserves(1) [of P, OF reg pre] by blast
qed

lemma registerRoute_config: "config (snd (registerRoute rt r)) = config r"
  by (simp add: registerRoute_def Let_def split: option.splits)

lemma registerRoute_oneToOne:
  assumes c: "immutable (config r)" "\<not> duplicates (config r)" and inv: "oneToOne r"
  shows "oneToOne (snd (registerRoute rt r))"
proof (cases "fst (registerRoute rt r)")
  case (Some e)
  then have "snd (registerRoute rt r) = r"
    by (auto simp: registerRoute_def Let_def split: option.splits if_splits)
  then show ?thesis using inv by simp
next
  case None
  define rt' where "rt' = prefixedRoute r rt"
  define sg where "sg = routeSignature (routeMethod rt') (url rt')"
  have nm: "routeName rt' = routeName rt"
    by (simp add: rt'_def prefixedRoute_def applyPrefix_def split: option.splits)
  have fresh_name: "routes r (routeName rt') = None"
    using None c nm by (auto simp: registerRoute_def Let_def split: option.splits if_splits)
  have fresh_sig: "signatures r sg = None"
    using None c by (auto simp: registerRoute_def Let_def rt'_def sg_def split: option.splits if_splits)
  have st: "snd (registerRoute rt r) =
      r\<lparr>signatures := (signatures r)(sg \<mapsto> routeName rt'),
        routes := (routes r)(routeName rt' \<mapsto> rt')\<rparr>"
    using None c fresh_sig
    by (auto simp: registerRoute_def Let_def rt'_def sg_def split: option.splits if_splits)
  show ?thesis
    unfolding st oneToOne_def
  proof (intro conjI allI impI)
    fix n x
    assume "routes (r\<lparr>signatures := (signatures r)(sg \<mapsto> routeName rt'),
        routes := (routes r)(routeName rt' \<mapsto> rt')\<rparr>) n = Some x"
    then have h: "(n = routeName rt' \<and> x = rt') \<or> (n \<noteq> routeName rt' \<and> routes r n = Some x)"
      by (auto split: if_splits)
    then show "signatures (r\<lparr>signatures := (signatures r)(sg \<mapsto> routeName rt'),
        routes := (routes r)(routeName rt' \<mapsto> rt')\<rparr>)
         (routeSignature (routeMethod x) (url x)) = Some n"
    proof
      assume "n = routeName rt' \<and> x = rt'"
      then show ?thesis by (simp add: sg_def)
    next
      assume a: "n \<noteq> routeName rt' \<and> routes r n = Some x"
      then have "signatures r (routeSignature (routeMethod x) (url x)) = Some n"
        using inv by (simp add: oneToOne_def)
      moreover from this have "routeSignature (routeMethod x) (url x) \<noteq> sg"
        using fresh_sig by auto
      ultimately show ?thesis by simp
    qed
  next
    fix s n
    assume "signatures (r\<lparr>signatures := (signatures r)(sg \<mapsto> routeName rt'),
        routes := (routes r)(routeName rt' \<mapsto> rt')\<rparr>) s = Some n"
    then have h: "(s = sg \<and> n = routeName rt') \<or> (s \<noteq> sg \<and> signatures r s = Some n)"
      by (auto split: if_splits)
    then show "\<exists>x. routes (r\<lparr>signatures := (signatures r)(sg \<mapsto> routeName rt'),
        routes := (routes r)(routeName rt' \<mapsto> rt')\<rparr>) n = Some x
         \<and> routeSignature (routeMethod x) (url x) = s"
    proof
      assume "s = sg \<and> n = routeName rt'"
      then show ?thesis by (simp add: sg_def)
    next
      assume a: "s \<noteq> sg \<and> signatures r s = Some n"
      then obtain x where x: "routes r n = Some x" "routeSignature (routeMethod x) (url x) = s"
        using inv unfolding oneToOne_def by blast
      then have "n \<noteq> routeName rt'" using fresh_name by auto
      then show ?thesis using x by simp
    qed
  qed
qed

lemma reachable_oneToOne:
  assumes "reachable c r" "immutable c" "\<not> duplicates c"
  shows "config r = c \<and> oneToOne r"
proof (rule reachable_invariant [where P = "\<lambda>r. config r = c \<and> oneToOne r", OF _ _ _ assms(1)])
  show "config (newRouter c) = c \<and> oneToOne (newRouter c)"
    by (simp add: newRouter_def oneToOne_def)
next
  fix rt r
  assume "config r = c \<and> oneToOne r"
  then show "config (snd (registerRoute rt r)) = c \<and> oneToOne (snd (registerRoute rt r))"
    using registerRoute_oneToOne [of r rt] assms(2,3) by (simp add: registerRoute_config)
next
  fix r p
  assume "config r = c \<and> oneToOne r"
  then show "config (r\<lparr>routePrefix := p\<rparr>) = c \<and> oneToOne (r\<lparr>routePrefix := p\<rparr>)"
    by (simp add: oneToOne_def)
qed

lemmas router_eval = register_def registerRoute_def newRouter_def routeSignature_def Let_def
  applyPrefix_def prefixedRoute_def defaultRouterConfiguration_def prefix_def

lemma oneToOne_bij:
  assumes "oneToOne r"
  shows "bij_betw (\<lambda>s. the (signatures r s)) (dom (signatures r)) (dom (routes r))"
proof (rule bij_betwI')
  fix s t
  assume "s \<in> dom (signatures r)" "t \<in> dom (signatures r)"
  then obtain n m where nm: "signatures r s = Some n" "signatures r t = Some m" by auto
  show "(the (signatures r s) = the (signatures r t)) = (s = t)"
  proof
    assume "the (signatures r s) = the (signatures r t)"
    with nm have "n = m" by simp
    with nm assms show "s = t" unfolding oneToOne_def by (metis option.inject)
  next
    assume "s = t" then show "the (signatures r s) = the (signatures r t)" by simp
  qed
next
  fix s
  assume "s \<in> dom (signatures r)"
  then obtain n where "signatures r s = Some n" by auto
  with assms show "the (signatures r s) \<in> dom (routes r)"
    unfolding oneToOne_def by fastforce
next
  fix n
  assume "n \<in> dom (routes r)"
  then obtain rt where "routes r n = Some rt" by auto
  with assms have "signatures r (routeSignature (routeMethod rt) (url rt)) = Some n"
    unfolding oneToOne_def by blast
  then show "\<exists>s\<in>dom (signatures r). n = the (signatures r s)"
    by (intro bexI [of _ "routeSignature (routeMethod rt) (url rt)"]) auto
qed

lemma registerRoute_cases:
  "(\<exists>e. registerRoute rt r = (Some (RegistrationError e), r))
   \<or> registerRoute rt r =
       (None, r\<lparr>signatures := (signatures r)
                    (routeSignature (routeMethod (prefixedRoute r rt)) (url (prefixedRoute r rt))
                       \<mapsto> routeName (prefixedRoute r rt)),
                 routes := (routes r)(routeName (prefixedRoute r rt) \<mapsto> prefixedRoute r rt)\<rparr>)"
  by (simp add: registerRoute_def Let_def split: option.splits)

lemma prefixedRoute_name: "routeName (prefixedRoute r rt) = routeName rt"
  by (simp add: prefixedRoute_def applyPrefix_def split: option.splits)

lemma registerRoute_fails:
  "registerRoute rt r = (Some e, r') \<Longrightarrow> r' = r"
  using registerRoute_cases [of rt r] by auto

lemma registerRoute_owner:
  assumes d: "\<not> duplicates (config r)"
    and inv: "\<forall>n x. routes r n = Some x \<longrightarrow>
                signatures r (routeSignature (routeMethod x) (url x)) = Some n"
  shows "\<forall>n x. routes (snd (registerRoute rt r)) n = Some x \<longrightarrow>
           signatures (snd (registerRoute rt r)) (routeSignature (routeMethod x) (url x)) = Some n"
proof (cases "fst (registerRoute rt r)")
  case (Some e)
  then have "snd (registerRoute rt r) = r"
    using registerRoute_fails [of rt r e "snd (registerRoute rt r)"] by (metis prod.collapse)
  then show ?thesis using inv by simp
next
  case None
  define rt' where "rt' = prefixedRoute r rt"
  define sg where "sg = routeSignature (routeMethod rt') (url rt')"
  have fresh_sig: "signatures r sg = None"
    using None d by (auto simp: registerRoute_def Let_def rt'_def sg_def split: option.splits if_splits)
  have st: "snd (registerRoute rt r) =
      r\<lparr>signatures := (signatures r)(sg \<mapsto> routeName rt'),
        routes := (routes r)(routeName rt' \<mapsto> rt')\<rparr>"
    using None registerRoute_cases [of rt r] by (auto simp: rt'_def sg_def)
  show ?thesis
    unfolding st
  proof (intro allI impI)
    fix n x
    assume "routes (r\<lparr>signatures := (signatures r)(sg \<mapsto> routeName rt'),
        routes := (routes r)(routeName rt' \<mapsto> rt')\<rparr>) n = Some x"
    then have h: "(n = routeName rt' \<and> x = rt') \<or> (n \<noteq> routeName rt' \<and> routes r n = Some x)"
      by (auto split: if_splits)
    then show "signatures (r\<lparr>signatures := (signatures r)(sg \<mapsto> routeName rt'),
        routes := (routes r)(routeName rt' \<mapsto> rt')\<rparr>)
         (routeSignature (routeMethod x) (url x)) = Some n"
    proof
      assume "n = routeName rt' \<and> x = rt'"
      then show ?thesis by (simp add: sg_def)
    next
      assume a: "n \<noteq> routeName rt' \<and> routes r n = Some x"
      then have "signatures r (routeSignature (routeMethod x) (url x)) = Some n"
        using inv by simp
      moreover from this have "routeSignature (routeMethod x) (url x) \<noteq> sg"
        using fresh_sig by auto
      ultimately show ?thesis by simp
    qed
  qed
qed

lemma reachable_owner:
  assumes "reachable c r" "\<not> duplicates c"
  shows "config r = c \<and> (\<forall>n x. routes r n = Some x \<longrightarrow>
           signatures r (routeSignature (routeMethod x) (url x)) = Some n)"
proof (rule reachable_invariant [where P = "\<lambda>r. config r = c \<and> (\<forall>n x. routes r n = Some x \<longrightarrow>
           signatures r (routeSignature (routeMethod x) (url x)) = Some n)", OF _ _ _ assms(1)])
  show "config (newRouter c) = c \<and> (\<forall>n x. routes (newRouter c) n = Some x \<longrightarrow>
           signatures (newRouter c) (routeSignature (routeMethod x) (url x)) = Some n)"
    by (simp add: newRouter_def)
next
  fix rt and r :: Router
  assume "config r = c \<and> (\<forall>n x. routes r n = Some x \<longrightarrow>
           signatures r (routeSignature (routeMethod x) (url x)) = Some n)"
  then show "config (snd (registerRoute rt r)) = c \<and>
       (\<forall>n x. routes (snd (registerRoute rt r)) n = Some x \<longrightarrow>
           signatures (snd (registerRoute rt r)) (routeSignature (routeMethod x) (url x)) = Some n)"
    using registerRoute_owner [of r rt] assms(2) by (simp add: registerRoute_config)
next
  fix r :: Router and p
  assume "config r = c \<and> (\<forall>n x. routes r n = Some x \<longrightarrow>
           signatures r (routeSignature (routeMethod x) (url x)) = Some n)"
  then show "config (r\<lparr>routePrefix := p\<rparr>) = c \<and>
      (\<forall>n x. routes (r\<lparr>routePrefix := p\<rparr>) n = Some x \<longrightarrow>
           signatures (r\<lparr>routePrefix := p\<rparr>) (routeSignature (routeMethod x) (url x)) = Some n)"
    by simp
qed

text \<open>
  Claim C3, as stated, fails. The claim: in every reachable state, under any
  configuration, \<open>routes\<close> and \<open>signatures\<close> are in one-to-one correspondence. With
  \<^verbatim>\<open>duplicates:true\<close>, registering r1 and r2 for GET /a leaves two routes and the one
  signature GET:/a, owned by r2. With the default configuration, registering r1 for
  GET /a and again for GET /b leaves the one route r1 and two signatures.
\<close>

theorem routes_signatures_not_oneToOne:
  "reachable \<lparr>immutable = False, duplicates = True\<rparr>
     (snd (exec (Register ''r2'' ''GET'' ''/a'')
         (snd (exec (Register ''r1'' ''GET'' ''/a'')
            (newRouter \<lparr>immutable = False, duplicates = True\<rparr>)))))
   \<and> dom (routes (snd (exec (Register ''r2'' ''GET'' ''/a'')
         (snd (exec (Register ''r1'' ''GET'' ''/a'')
            (newRouter \<lparr>immutable = False, duplicates = True\<rparr>)))))) = {''r2'', ''r1''}
   \<and> dom (signatures (snd (exec (Register ''r2'' ''GET'' ''/a'')
         (snd (exec (Register ''r1'' ''GET'' ''/a'')
            (newRouter \<lparr>immutable = False, duplicates = True\<rparr>)))))) = {''GET:/a''}
   \<and> \<not> oneToOne (snd (exec (Register ''r2'' ''GET'' ''/a'')
         (snd (exec (Register ''r1'' ''GET'' ''/a'')
            (newRouter \<lparr>immutable = False, duplicates = True\<rparr>)))))
   \<and> reachable defaultRouterConfiguration
     (snd (exec (Register ''r1'' ''GET'' ''/b'')
         (snd (exec (Register ''r1'' ''GET'' ''/a'')
            (newRouter defaultRouterConfiguration)))))
   \<and> dom (routes (snd (exec (Register ''r1'' ''GET'' ''/b'')
         (snd (exec (Register ''r1'' ''GET'' ''/a'')
            (newRouter defaultRouterConfiguration)))))) = {''r1''}
   \<and> dom (signatures (snd (exec (Register ''r1'' ''GET'' ''/b'')
         (snd (exec (Register ''r1'' ''GET'' ''/a'')
            (newRouter defaultRouterConfiguration)))))) = {''GET:/b'', ''GET:/a''}
   \<and> \<not> oneToOne (snd (exec (Register ''r1'' ''GET'' ''/b'')
         (snd (exec (Register ''r1'' ''GET'' ''/a'')
            (newRouter defaultRouterConfiguration)))))"
proof (intro conjI)
  show "reachable \<lparr>immutable = False, duplicates = True\<rparr>
     (snd (exec (Register ''r2'' ''GET'' ''/a'')
         (snd (exec (Register ''r1'' ''GET'' ''/a'')
            (newRouter \<lparr>immutable = False, duplicates = True\<rparr>)))))"
    by (intro reachable.after_call reachable.fresh)
  show "reachable defaultRouterConfiguration
     (snd (exec (Register ''r1'' ''GET'' ''/b'')
         (snd (exec (Register ''r1'' ''GET'' ''/a'')
            (newRouter defaultRouterConfiguration)))))"
    by (intro reachable.after_call reachable.fresh)
  show "\<not> oneToOne (snd (exec (Register ''r2'' ''GET'' ''/a'')
         (snd (exec (Register ''r1'' ''GET'' ''/a'')
            (newRouter \<lparr>immutable = False, duplicates = True\<rparr>)))))"
  proof
    assume "oneToOne (snd (exec (Register ''r2'' ''GET'' ''/a'')
         (snd (exec (Register ''r1'' ''GET'' ''/a'')
            (newRouter \<lparr>immutable = False, duplicates = True\<rparr>)))))"
    then have "\<forall>n rt. ([''r1'' \<mapsto> \<lparr>routeName = ''r1'', routeMethod = ''GET'', url = ''/a''\<rparr>,
                ''r2'' \<mapsto> \<lparr>routeName = ''r2'', routeMethod = ''GET'', url = ''/a''\<rparr>]) n = Some rt
        \<longrightarrow> [''GET:/a'' \<mapsto> ''r2''] (routeMethod rt @ '':'' @ url rt) = Some n"
      by (simp add: router_eval oneToOne_def)
    from this [rule_format, of "''r1''" "\<lparr>routeName = ''r1'', routeMethod = ''GET'', url = ''/a''\<rparr>"]
    show False by simp
  qed
  show "\<not> oneToOne (snd (exec (Register ''r1'' ''GET'' ''/b'')
         (snd (exec (Register ''r1'' ''GET'' ''/a'')
            (newRouter defaultRouterConfiguration)))))"
  proof
    assume "oneToOne (snd (exec (Register ''r1'' ''GET'' ''/b'')
         (snd (exec (Register ''r1'' ''GET'' ''/a'')
            (newRouter defaultRouterConfiguration)))))"
    then have "\<forall>s n. [''GET:/a'' \<mapsto> ''r1'', ''GET:/b'' \<mapsto> ''r1''] s = Some n \<longrightarrow>
       (\<exists>rt. [''r1'' \<mapsto> \<lparr>routeName = ''r1'', routeMethod = ''GET'', url = ''/b''\<rparr>] n = Some rt
           \<and> routeMethod rt @ '':'' @ url rt = s)"
      by (simp add: router_eval oneToOne_def)
    from this [rule_format, of "''GET:/a''" "''r1''"]
    show False by simp
  qed
qed (simp_all add: router_eval)

text \<open>
  Claim C3, amended. In every state a router configured with \<^verbatim>\<open>immutable:true\<close> and
  \<^verbatim>\<open>duplicates:false\<close> reaches by any sequence of register, registerRoute and prefix
  calls, returning or raising, \<open>routes\<close> and \<open>signatures\<close> are in one-to-one
  correspondence: \<open>signatures\<close> maps its keys one-to-one onto the names of \<open>routes\<close>, each
  key being the signature of the route it names.
\<close>

theorem reachable_strict_oneToOne:
  "reachable c r \<Longrightarrow> immutable c \<Longrightarrow> \<not> duplicates c \<Longrightarrow>
   oneToOne r
   \<and> bij_betw (\<lambda>s. the (signatures r s)) (dom (signatures r)) (dom (routes r))"
  using reachable_oneToOne [of c r] oneToOne_bij [of r] by blast

theorem reachable_strict_oneToOne_witness:
  "reachable \<lparr>immutable = True, duplicates = False\<rparr>
     (snd (exec (Register ''r2'' ''GET'' ''/b'')
         (snd (exec (Register ''r1'' ''GET'' ''/a'')
            (newRouter \<lparr>immutable = True, duplicates = False\<rparr>)))))
   \<and> immutable \<lparr>immutable = True, duplicates = False\<rparr>
   \<and> \<not> duplicates \<lparr>immutable = True, duplicates = False\<rparr>
   \<and> oneToOne
        (snd (exec (Register ''r2'' ''GET'' ''/b'')
           (snd (exec (Register ''r1'' ''GET'' ''/a'')
              (newRouter \<lparr>immutable = True, duplicates = False\<rparr>)))))"
proof -
  have re: "reachable \<lparr>immutable = True, duplicates = False\<rparr>
     (snd (exec (Register ''r2'' ''GET'' ''/b'')
         (snd (exec (Register ''r1'' ''GET'' ''/a'')
            (newRouter \<lparr>immutable = True, duplicates = False\<rparr>)))))"
    by (intro reachable.after_call reachable.fresh)
  have i: "immutable \<lparr>immutable = True, duplicates = False\<rparr>" by simp
  have d: "\<not> duplicates \<lparr>immutable = True, duplicates = False\<rparr>" by simp
  show ?thesis
    using reachable_strict_oneToOne [OF re i d] re by simp
qed

text \<open>
  Claim C5. In a state reached with the default configuration, registering a route whose
  method and url (after the prefix step) are those of a stored route fails with the
  \<open>RegistrationError\<close> whose message, written out below, names the new route and, as the
  existing one, the stored route; the state is the one before the call. With
  \<^verbatim>\<open>duplicates:true\<close> the registration of a route of another name succeeds, and
  \<^verbatim>\<open>route\<close> then finds both routes under their names.
\<close>

theorem duplicate_registration:
  "(reachable defaultRouterConfiguration r \<and> routes r n0 = Some r0
      \<and> routeMethod (prefixedRoute r rt) = routeMethod r0 \<and> url (prefixedRoute r rt) = url r0
    \<longrightarrow> registerRoute rt r
          = (Some (RegistrationError
                (''Route '' @ [CHR 0x27] @ routeName rt @ [CHR 0x27]
                   @ '' is a duplicate of existing route '' @ [CHR 0x27] @ n0 @ [CHR 0x27]
                   @ ''. If you want to enable multiple aliases for the same url and method combination, set ''
                   @ [CHR 0x27] @ ''duplicates'' @ [CHR 0x27] @ '' option as true.'')),
             r))
   \<and> (duplicates (config r) \<and> \<not> immutable (config r) \<and> routes r n0 = Some r0
        \<and> routeName rt \<noteq> n0
      \<longrightarrow> (\<exists>r'. registerRoute rt r = (None, r') \<and> route r' n0 = Some r0
                \<and> route r' (routeName rt) = Some (prefixedRoute r rt)))"
proof (intro conjI impI)
  assume a: "reachable defaultRouterConfiguration r \<and> routes r n0 = Some r0
      \<and> routeMethod (prefixedRoute r rt) = routeMethod r0 \<and> url (prefixedRoute r rt) = url r0"
  then have c: "config r = defaultRouterConfiguration"
    and own: "signatures r (routeSignature (routeMethod r0) (url r0)) = Some n0"
    using reachable_owner [of defaultRouterConfiguration r]
    by (simp_all add: defaultRouterConfiguration_def)
  show "registerRoute rt r
          = (Some (RegistrationError
                (''Route '' @ [CHR 0x27] @ routeName rt @ [CHR 0x27]
                   @ '' is a duplicate of existing route '' @ [CHR 0x27] @ n0 @ [CHR 0x27]
                   @ ''. If you want to enable multiple aliases for the same url and method combination, set ''
                   @ [CHR 0x27] @ ''duplicates'' @ [CHR 0x27] @ '' option as true.'')),
             r)"
    using a c own
    by (simp add: registerRoute_def Let_def defaultRouterConfiguration_def prefixedRoute_name
        duplicateMessage_def quoted_def)
next
  assume a: "duplicates (config r) \<and> \<not> immutable (config r) \<and> routes r n0 = Some r0
        \<and> routeName rt \<noteq> n0"
  then show "\<exists>r'. registerRoute rt r = (None, r') \<and> route r' n0 = Some r0
                \<and> route r' (routeName rt) = Some (prefixedRoute r rt)"
    by (auto simp: registerRoute_def Let_def route_def prefixedRoute_name split: option.splits)
qed

theorem duplicate_registration_witness:
  "reachable defaultRouterConfiguration
      (snd (exec (Register ''r1'' ''GET'' ''/a'') (newRouter defaultRouterConfiguration)))
   \<and> routes (snd (exec (Register ''r1'' ''GET'' ''/a'') (newRouter defaultRouterConfiguration))) ''r1''
       = Some \<lparr>routeName = ''r1'', routeMethod = ''GET'', url = ''/a''\<rparr>
   \<and> register ''r2'' ''GET'' ''/a''
         (snd (exec (Register ''r1'' ''GET'' ''/a'') (newRouter defaultRouterConfiguration)))
       = (Some (RegistrationError
                (''Route '' @ [CHR 0x27] @ ''r2'' @ [CHR 0x27]
                   @ '' is a duplicate of existing route '' @ [CHR 0x27] @ ''r1'' @ [CHR 0x27]
                   @ ''. If you want to enable multiple aliases for the same url and method combination, set ''
                   @ [CHR 0x27] @ ''duplicates'' @ [CHR 0x27] @ '' option as true.'')),
          snd (exec (Register ''r1'' ''GET'' ''/a'') (newRouter defaultRouterConfiguration)))
   \<and> duplicates (config (snd (exec (Register ''r1'' ''GET'' ''/a'')
          (newRouter \<lparr>immutable = False, duplicates = True\<rparr>))))
   \<and> (\<exists>r'. register ''r2'' ''GET'' ''/a''
               (snd (exec (Register ''r1'' ''GET'' ''/a'')
                  (newRouter \<lparr>immutable = False, duplicates = True\<rparr>))) = (None, r')
            \<and> route r' ''r1'' = Some \<lparr>routeName = ''r1'', routeMethod = ''GET'', url = ''/a''\<rparr>
            \<and> route r' ''r2'' = Some \<lparr>routeName = ''r2'', routeMethod = ''GET'', url = ''/a''\<rparr>)"
proof -
  let ?s = "snd (exec (Register ''r1'' ''GET'' ''/a'') (newRouter defaultRouterConfiguration))"
  let ?d = "snd (exec (Register ''r1'' ''GET'' ''/a'')
                  (newRouter \<lparr>immutable = False, duplicates = True\<rparr>))"
  let ?r1 = "\<lparr>routeName = ''r1'', routeMethod = ''GET'', url = ''/a''\<rparr>"
  let ?r2 = "\<lparr>routeName = ''r2'', routeMethod = ''GET'', url = ''/a''\<rparr>"
  have re: "reachable defaultRouterConfiguration ?s"
    by (intro reachable.after_call reachable.fresh)
  have s1: "routes ?s ''r1'' = Some ?r1" by (simp add: router_eval)
  have p1: "prefixedRoute ?s ?r2 = ?r2" by (simp add: router_eval)
  have d1: "routes ?d ''r1'' = Some ?r1" by (simp add: router_eval)
  have d2: "duplicates (config ?d) \<and> \<not> immutable (config ?d)" by (simp add: router_eval)
  have p2: "prefixedRoute ?d ?r2 = ?r2" by (simp add: router_eval)
  show ?thesis
    using duplicate_registration [of ?s "''r1''" ?r1 ?r2] duplicate_registration [of ?d "''r1''" ?r1 ?r2] re s1 p1 d1 d2 p2
    by (simp add: register_def)
qed

lemma prefix_returns:
  "callback (r\<lparr>routePrefix := Some p\<rparr>) = (None, ra) \<Longrightarrow>
   prefix p callback r = (None, ra\<lparr>routePrefix := None\<rparr>)"
  by (simp add: prefix_def)

lemma prefix_raises:
  "callback (r\<lparr>routePrefix := Some p\<rparr>) = (Some e, ra) \<Longrightarrow>
   prefix p callback r = (Some e, ra)"
  by (simp add: prefix_def)

text \<open>
  Claim C9. The claim: after any invocation of \<^verbatim>\<open>prefix\<close>, also one whose callback
  raises, \<open>routePrefix\<close> is null, so calls inside the callback are prefixed and calls outside
  are not. When the callback returns the code does so: the route registered inside gets
  the url /api/ping and \<open>routePrefix\<close> is null afterwards. A callback that registers GET /x
  twice raises the duplicate error on its second call; \<^verbatim>\<open>prefix\<close> has no handler, the
  statement that clears the prefix is skipped, \<open>routePrefix\<close> stays /api, and a route
  registered afterwards, outside any callback, gets the url /api/c.
\<close>

theorem prefix_not_cleared_when_callback_raises:
  "prefix ''/api'' (execBody [Register ''ping'' ''GET'' ''/ping''])
       (newRouter defaultRouterConfiguration)
     = (None,
        \<lparr>routes = [''ping'' \<mapsto> \<lparr>routeName = ''ping'', routeMethod = ''GET'', url = ''/api/ping''\<rparr>],
         config = defaultRouterConfiguration,
         signatures = [''GET:/api/ping'' \<mapsto> ''ping''],
         routePrefix = None\<rparr>)
   \<and> fst (prefix ''/api'' (execBody [Register ''a'' ''GET'' ''/x'', Register ''b'' ''GET'' ''/x''])
          (newRouter defaultRouterConfiguration))
     = Some (RegistrationError
                (''Route '' @ [CHR 0x27] @ ''b'' @ [CHR 0x27]
                   @ '' is a duplicate of existing route '' @ [CHR 0x27] @ ''a'' @ [CHR 0x27]
                   @ ''. If you want to enable multiple aliases for the same url and method combination, set ''
                   @ [CHR 0x27] @ ''duplicates'' @ [CHR 0x27] @ '' option as true.''))
   \<and> routePrefix
        (snd (prefix ''/api'' (execBody [Register ''a'' ''GET'' ''/x'', Register ''b'' ''GET'' ''/x''])
                (newRouter defaultRouterConfiguration)))
       = Some ''/api''
   \<and> routes
        (snd (register ''c'' ''GET'' ''/c''
           (snd (prefix ''/api''
                   (execBody [Register ''a'' ''GET'' ''/x'', Register ''b'' ''GET'' ''/x''])
                   (newRouter defaultRouterConfiguration))))) ''c''
       = Some \<lparr>routeName = ''c'', routeMethod = ''GET'', url = ''/api/c''\<rparr>"
  by (simp add: router_eval duplicateMessage_def quoted_def)

section \<open>The configuration middleware\<close>

lemma apply_route_input:
  "route_name (fst (apply_route c rt)) = route_name rt
   \<and> route_method (fst (apply_route c rt)) = route_method rt
   \<and> uriString (route_uri (fst (apply_route c rt))) = uriString (route_uri rt)
   \<and> route_extra (fst (apply_route c rt)) = route_extra rt ++ config_extra c
   \<and> uriConfiguration (route_uri (fst (apply_route c rt)))
       = (if length (config_prefix c) > 0
          then uriConfiguration (route_uri rt) ++ config_uris c
          else uriConfiguration (route_uri rt))"
  by (simp add: apply_route_def updateUri_def Object_assign_def Let_def)

text \<open>
  Claim C6. The claim: \<^verbatim>\<open>apply\<close> leaves the route passed in unchanged, its
  \<^verbatim>\<open>extra\<close> and the configuration of its Uri included. The code passes
  \<^verbatim>\<open>route.extra\<close> and \<^verbatim>\<open>route.uri.configuration\<close> as the targets of
  \<^verbatim>\<open>Object.assign\<close>, which writes into them: after the call the route passed in has
  the key \<^verbatim>\<open>auth\<close> of the configuration in its \<^verbatim>\<open>extra\<close>, and the configuration
  of its Uri has the overriding value of \<^verbatim>\<open>prependSlash\<close>.
\<close>

theorem apply_route_mutates_input:
  "route_extra
     (fst (apply_route
        \<lparr>config_prefix = ''/api'', config_extra = [''auth'' \<mapsto> Bool True],
         config_uris = [''prependSlash'' \<mapsto> Bool False]\<rparr>
        \<lparr>route_name = ''ping'', route_method = ''GET'',
         route_uri = \<lparr>uriString = ''/ping'', uriConfiguration = [''prependSlash'' \<mapsto> Bool True]\<rparr>,
         route_extra = Map.empty\<rparr>)) ''auth''
     = Some (Bool True)
   \<and> uriConfiguration (route_uri
       (fst (apply_route
        \<lparr>config_prefix = ''/api'', config_extra = [''auth'' \<mapsto> Bool True],
         config_uris = [''prependSlash'' \<mapsto> Bool False]\<rparr>
        \<lparr>route_name = ''ping'', route_method = ''GET'',
         route_uri = \<lparr>uriString = ''/ping'', uriConfiguration = [''prependSlash'' \<mapsto> Bool True]\<rparr>,
         route_extra = Map.empty\<rparr>))) ''prependSlash''
     = Some (Bool False)
   \<and> fst (apply_route
        \<lparr>config_prefix = ''/api'', config_extra = [''auth'' \<mapsto> Bool True],
         config_uris = [''prependSlash'' \<mapsto> Bool False]\<rparr>
        \<lparr>route_name = ''ping'', route_method = ''GET'',
         route_uri = \<lparr>uriString = ''/ping'', uriConfiguration = [''prependSlash'' \<mapsto> Bool True]\<rparr>,
         route_extra = Map.empty\<rparr>)
     \<noteq> \<lparr>route_name = ''ping'', route_method = ''GET'',
         route_uri = \<lparr>uriString = ''/ping'', uriConfiguration = [''prependSlash'' \<mapsto> Bool True]\<rparr>,
         route_extra = Map.empty\<rparr>"
proof -
  let ?c = "\<lparr>config_prefix = ''/api'', config_extra = [''auth'' \<mapsto> Bool True],
         config_uris = [''prependSlash'' \<mapsto> Bool False]\<rparr>"
  let ?rt = "\<lparr>route_name = ''ping'', route_method = ''GET'',
         route_uri = \<lparr>uriString = ''/ping'', uriConfiguration = [''prependSlash'' \<mapsto> Bool True]\<rparr>,
         route_extra = Map.empty\<rparr>"
  have e: "route_extra (fst (apply_route ?c ?rt)) ''auth'' = Some (Bool True)"
    by (simp add: apply_route_def updateUri_def Object_assign_def Let_def)
  have u: "uriConfiguration (route_uri (fst (apply_route ?c ?rt))) ''prependSlash'' = Some (Bool False)"
    by (simp add: apply_route_def updateUri_def Object_assign_def Let_def)
  have "route_extra ?rt ''auth'' = None" by simp
  with e have "fst (apply_route ?c ?rt) \<noteq> ?rt" by (metis option.distinct(1))
  with e u show ?thesis by blast
qed

end
